theory Spec2Isabelle
  imports Complex_Main
begin

section \<open>Values and objects of the configuration module\<close>

text \<open>
  The repository is the single module \<^verbatim>\<open>src/AI/core/config.ts\<close>. Its default export is an
  object literal with three properties. The values that occur in it are a reference returned by
  the imported provider factory, a string literal and a numeric literal.

  A string is kept as the UTF-8 bytes of its literal in the source file (\<^typ>\<open>string\<close> is a
  list of 8-bit characters), a number as a real (the literal \<^verbatim>\<open>4096\<close> is exactly
  representable), and the reference returned by the factory as a value of an arbitrary type
  \<^typ>\<open>'m\<close>: the module never looks inside it.
\<close>

datatype 'm js_value = JModel 'm | JString string | JNumber real

text \<open>
  An object is the list of its own properties in creation order, each key at most once.
  Defining a property whose key is already there overwrites the value in place, as the
  evaluation of an object literal does for a repeated key.
\<close>

type_synonym 'm js_object = "(string \<times> 'm js_value) list"

primrec define_property :: "'m js_object \<Rightarrow> string \<Rightarrow> 'm js_value \<Rightarrow> 'm js_object" where
  "define_property [] k v = [(k, v)]"
| "define_property (p # ps) k v =
     (if fst p = k then (k, v) # ps else p # define_property ps k v)"

definition object_literal :: "(string \<times> 'm js_value) list \<Rightarrow> 'm js_object" where
  "object_literal props = foldl (\<lambda>obj p. define_property obj (fst p) (snd p)) [] props"

text \<open>
  Looking up an own property; \<^term>\<open>None\<close> means that the object has no own property under
  the key. Members inherited from the prototype are not part of the object.
\<close>

definition get_property :: "'m js_object \<Rightarrow> string \<Rightarrow> 'm js_value option" where
  "get_property obj k = map_of obj k"

definition own_keys :: "'m js_object \<Rightarrow> string list" where
  "own_keys obj = map fst obj"

definition is_integer :: "real \<Rightarrow> bool" where
  "is_integer x = (of_int \<lfloor>x\<rfloor> = x)"


section \<open>The literals of the module\<close>

text \<open>
  Line 6: the argument of the factory call, \<^verbatim>\<open>'qwen2.5-coder:7b'\<close> (16 ASCII bytes).
\<close>

definition model_id :: string where
  "model_id = ''qwen2.5-coder:7b''"

text \<open>
  Line 9: the string literal of \<^verbatim>\<open>systemPrompt\<close>, 126 bytes of UTF-8 between the double
  quotes, written here one word or separator per line. Every Cyrillic letter takes two bytes
  (lead byte \<^verbatim>\<open>D0\<close> or \<^verbatim>\<open>D1\<close>); the separators are the ASCII space \<^verbatim>\<open>20\<close>, hyphen
  \<^verbatim>\<open>2D\<close>, comma \<^verbatim>\<open>2C\<close> and full stop \<^verbatim>\<open>2E\<close>. In Latin transliteration the sentence
  reads: Ty - opytnyj programmist, pomogayushchij pisat' chistyj i effektivnyj kod.
\<close>

definition systemPrompt_literal :: string where
  "systemPrompt_literal =
    [CHR 0xD0, CHR 0xA2, CHR 0xD1, CHR 0x8B,
     CHR 0x20,
     CHR 0x2D,
     CHR 0x20,
     CHR 0xD0, CHR 0xBE, CHR 0xD0, CHR 0xBF, CHR 0xD1, CHR 0x8B, CHR 0xD1, CHR 0x82,
     CHR 0xD0, CHR 0xBD, CHR 0xD1, CHR 0x8B, CHR 0xD0, CHR 0xB9,
     CHR 0x20,
     CHR 0xD0, CHR 0xBF, CHR 0xD1, CHR 0x80, CHR 0xD0, CHR 0xBE, CHR 0xD0, CHR 0xB3,
     CHR 0xD1, CHR 0x80, CHR 0xD0, CHR 0xB0, CHR 0xD0, CHR 0xBC, CHR 0xD0, CHR 0xBC,
     CHR 0xD0, CHR 0xB8, CHR 0xD1, CHR 0x81, CHR 0xD1, CHR 0x82,
     CHR 0x2C,
     CHR 0x20,
     CHR 0xD0, CHR 0xBF, CHR 0xD0, CHR 0xBE, CHR 0xD0, CHR 0xBC, CHR 0xD0, CHR 0xBE,
     CHR 0xD0, CHR 0xB3, CHR 0xD0, CHR 0xB0, CHR 0xD1, CHR 0x8E, CHR 0xD1, CHR 0x89,
     CHR 0xD0, CHR 0xB8, CHR 0xD0, CHR 0xB9,
     CHR 0x20,
     CHR 0xD0, CHR 0xBF, CHR 0xD0, CHR 0xB8, CHR 0xD1, CHR 0x81, CHR 0xD0, CHR 0xB0,
     CHR 0xD1, CHR 0x82, CHR 0xD1, CHR 0x8C,
     CHR 0x20,
     CHR 0xD1, CHR 0x87, CHR 0xD0, CHR 0xB8, CHR 0xD1, CHR 0x81, CHR 0xD1, CHR 0x82,
     CHR 0xD1, CHR 0x8B, CHR 0xD0, CHR 0xB9,
     CHR 0x20,
     CHR 0xD0, CHR 0xB8,
     CHR 0x20,
     CHR 0xD1, CHR 0x8D, CHR 0xD1, CHR 0x84, CHR 0xD1, CHR 0x84, CHR 0xD0, CHR 0xB5,
     CHR 0xD0, CHR 0xBA, CHR 0xD1, CHR 0x82, CHR 0xD0, CHR 0xB8, CHR 0xD0, CHR 0xB2,
     CHR 0xD0, CHR 0xBD, CHR 0xD1, CHR 0x8B, CHR 0xD0, CHR 0xB9,
     CHR 0x20,
     CHR 0xD0, CHR 0xBA, CHR 0xD0, CHR 0xBE, CHR 0xD0, CHR 0xB4,
     CHR 0x2E]"


section \<open>Evaluation of the module body\<close>

text \<open>
  \<^verbatim>\<open>ollama\<close> is imported from the package \<^verbatim>\<open>ollama-ai-provider\<close>, which is not part of the
  repository, so it is a parameter: a function from the model name and the state of everything
  outside the module (the provider library, the network, the runtime behind it) to the returned
  reference and the state afterwards. The type \<^typ>\<open>'w\<close> of that state is arbitrary.
\<close>

type_synonym ('m, 'w) factory = "string \<Rightarrow> 'w \<Rightarrow> 'm \<times> 'w"

text \<open>
  Lines 4 to 11, with the string passed to the factory as a parameter. The property values are
  evaluated in source order: the factory call of line 6 first, then the two literals. The
  \<^verbatim>\<open>satisfies Config\<close> of line 11 is checked by the compiler and erased; it does not change
  the value.
\<close>

definition config_with_model ::
    "string \<Rightarrow> ('m, 'w) factory \<Rightarrow> 'w \<Rightarrow> 'm js_object \<times> 'w" where
  "config_with_model name ollama w =
     (case ollama name w of
        (m, w') \<Rightarrow>
          (object_literal
             [(''model'', JModel m),
              (''systemPrompt'', JString systemPrompt_literal),
              (''maxTokens'', JNumber 4096)],
           w'))"

text \<open>The default export as the source has it: the model name is the literal of line 6.\<close>

definition default_export :: "('m, 'w) factory \<Rightarrow> 'w \<Rightarrow> 'm js_object \<times> 'w" where
  "default_export = config_with_model model_id"


section \<open>Observing the factory calls\<close>

text \<open>
  To count the calls a factory receives, it is wrapped so that the outside state carries a log
  and every call appends its argument. The wrapper changes nothing else: the wrapped factory
  returns what the factory returns and moves the underlying state as the factory does.
\<close>

definition recording :: "('m, 'w) factory \<Rightarrow> ('m, 'w \<times> string list) factory" where
  "recording f name s = (case f name (fst s) of (m, w') \<Rightarrow> (m, (w', snd s @ [name])))"


section \<open>Loading the module\<close>

text \<open>
  Modelled from the spec: the loader of the host application is not among the sources. The
  specification says that the record "is constructed exactly once per process load" and is
  "created at module/config load time by the host application's loader; lives for the duration
  of the host process". So the process holds a module record that is either not yet evaluated
  or evaluated with its export; the first import evaluates the module body, and every import
  returns the one object held.
\<close>

datatype 'm module_status = Unevaluated | Evaluated "'m js_object"

type_synonym ('m, 'w) process = "'m module_status \<times> 'w"

definition import_config ::
    "('m, 'w) factory \<Rightarrow> ('m, 'w) process \<Rightarrow> 'm js_object \<times> ('m, 'w) process" where
  "import_config ollama s =
     (case fst s of
        Evaluated c \<Rightarrow> (c, s)
      | Unevaluated \<Rightarrow>
          (case default_export ollama (snd s) of (c, w') \<Rightarrow> (c, (Evaluated c, w'))))"

text \<open>Any number of imports, one after the other, with the objects they return.\<close>

primrec import_many ::
    "nat \<Rightarrow> ('m, 'w) factory \<Rightarrow> ('m, 'w) process \<Rightarrow> 'm js_object list \<times> ('m, 'w) process" where
  "import_many 0 ollama s = ([], s)"
| "import_many (Suc n) ollama s =
     (case import_config ollama s of
        (c, s') \<Rightarrow> (case import_many n ollama s' of (cs, s'') \<Rightarrow> (c # cs, s'')))"


section \<open>What the host can do with the record\<close>










section \<open>A factory that allocates\<close>



section \<open>The host's configuration schema\<close>

text \<open>
  Modelled from the spec: the type \<^verbatim>\<open>Config\<close> is imported from the package \<^verbatim>\<open>opencoder\<close>,
  which is not among the sources. The specification says "The host defines a configuration
  schema with at least the fields: model (callable model reference), systemPrompt (string),
  maxTokens (integer)", and that a configuration "must supply model, systemPrompt, maxTokens,
  and may supply other optional recognized fields defined by the host's configuration schema".
  The optional fields are not listed anywhere, so they are a parameter.
\<close>

datatype field_type = ModelReference | StringField | IntegerField

primrec has_type :: "'m js_value \<Rightarrow> field_type \<Rightarrow> bool" where
  "has_type (JModel m) t = (t = ModelReference)"
| "has_type (JString s) t = (t = StringField)"
| "has_type (JNumber x) t = (t = IntegerField \<and> is_integer x)"

type_synonym field_decls = "(string \<times> field_type) list"

definition host_required :: field_decls where
  "host_required =
     [(''model'', ModelReference), (''systemPrompt'', StringField), (''maxTokens'', IntegerField)]"

text \<open>An object supplies a declared field when it has the property, with a value of that type.\<close>

definition supplies :: "'m js_object \<Rightarrow> string \<times> field_type \<Rightarrow> bool" where
  "supplies obj d =
     (case get_property obj (fst d) of None \<Rightarrow> False | Some v \<Rightarrow> has_type v (snd d))"

text \<open>A property is recognized when the schema declares its key and the value has that type.\<close>

definition recognized :: "field_decls \<Rightarrow> string \<times> 'm js_value \<Rightarrow> bool" where
  "recognized decls p =
     (case map_of decls (fst p) of None \<Rightarrow> False | Some t \<Rightarrow> has_type (snd p) t)"

definition conforms :: "field_decls \<Rightarrow> field_decls \<Rightarrow> 'm js_object \<Rightarrow> bool" where
  "conforms required optional obj =
     (list_all (supplies obj) required \<and> list_all (recognized (required @ optional)) obj)"


section \<open>The provider's side\<close>

text \<open>
  Modelled from the spec: the naming convention of the provider belongs to the provider
  library, which is not among the sources. The specification asks that the model be "a valid
  reference recognized by the configured provider's naming convention (e.g., non-empty
  identifier string of the expected provider)". An identifier string is taken to be a
  non-empty name of letters, digits, full stops, underscores and hyphens, optionally followed
  by a colon and a non-empty tag of the same characters.
\<close>

definition identifier_char :: "char \<Rightarrow> bool" where
  "identifier_char c =
     (c \<in> set ''abcdefghijklmnopqrstuvwxyzABCDEFGHIJKLMNOPQRSTUVWXYZ0123456789._-'')"

definition identifier_part :: "string \<Rightarrow> bool" where
  "identifier_part s = (s \<noteq> [] \<and> list_all identifier_char s)"

definition provider_model_name :: "string \<Rightarrow> bool" where
  "provider_model_name s =
     (case dropWhile (\<lambda>c. c \<noteq> CHR '':'') s of
        [] \<Rightarrow> identifier_part s
      | c # tag \<Rightarrow> identifier_part (takeWhile (\<lambda>c. c \<noteq> CHR '':'') s) \<and> identifier_part tag)"

text \<open>
  Modelled from the spec: the factory \<^verbatim>\<open>ollama\<close> of the package \<^verbatim>\<open>ollama-ai-provider\<close> is not
  among the sources. The specification says that the construction of the model field "should
  be modeled as a pure reference/descriptor (provider name + model name) rather than an eagerly
  connected resource", that it "must not perform network I/O or block at this stage", and that
  "binding is lazy; actual invocation happens inside the host application". So the factory
  returns the descriptor and leaves the outside state as it is.
\<close>

datatype binding = Binding (provider: string) (model_name: string)

definition ollama_binding :: "(binding, 'w) factory" where
  "ollama_binding name w = (Binding ''ollama'' name, w)"


section \<open>Shape of the exported object\<close>

text \<open>A key written twice in an object literal keeps its place and takes the later value.\<close>

lemma object_literal_repeated_key:
  "object_literal [(k, v1), (k, v2)] = [(k, v2)]"
  by (simp add: object_literal_def)

lemma config_with_model_object:
  "fst (config_with_model name ollama w) =
     [(''model'', JModel (fst (ollama name w))),
      (''systemPrompt'', JString systemPrompt_literal),
      (''maxTokens'', JNumber 4096)]"
  by (simp add: config_with_model_def object_literal_def split: prod.split)

lemma config_with_model_world:
  "snd (config_with_model name ollama w) = snd (ollama name w)"
  by (simp add: config_with_model_def split: prod.split)

lemma default_export_object:
  "fst (default_export ollama w) =
     [(''model'', JModel (fst (ollama model_id w))),
      (''systemPrompt'', JString systemPrompt_literal),
      (''maxTokens'', JNumber 4096)]"
  by (simp add: default_export_def config_with_model_object)

lemma default_export_world:
  "snd (default_export ollama w) = snd (ollama model_id w)"
  by (simp add: default_export_def config_with_model_world)


section \<open>Imports, first and later\<close>

lemma import_config_fresh:
  "import_config ollama (Unevaluated, w) =
     (fst (default_export ollama w),
      (Evaluated (fst (default_export ollama w)), snd (ollama model_id w)))"
  by (simp add: import_config_def default_export_world [symmetric] split: prod.split)

lemma import_config_evaluated:
  "import_config ollama (Evaluated c, w) = (c, (Evaluated c, w))"
  by (simp add: import_config_def)

lemma import_many_evaluated:
  "import_many n ollama (Evaluated c, w) = (replicate n c, (Evaluated c, w))"
  by (induction n) (simp_all add: import_config_evaluated)





lemma recording_state:
  "snd (recording f name s) = (snd (f name (fst s)), snd s @ [name])"
  by (simp add: recording_def split: prod.split)


section \<open>The literal fields\<close>

text \<open>
  C1. Loading the configuration in a process that has not loaded it before, whatever the
  factory and the outside state, yields an object whose \<^verbatim>\<open>maxTokens\<close> is the number 4096 and
  whose \<^verbatim>\<open>systemPrompt\<close> is the string with exactly the 126 UTF-8 bytes of the sentence quoted
  in the specification, Cyrillic letters included.
\<close>

theorem C1_loaded_literals:
  "get_property (fst (import_config ollama (Unevaluated, w))) ''maxTokens'' =
     Some (JNumber 4096) \<and>
   get_property (fst (import_config ollama (Unevaluated, w))) ''systemPrompt'' =
     Some (JString
       [CHR 0xD0, CHR 0xA2, CHR 0xD1, CHR 0x8B,
        CHR 0x20, CHR 0x2D, CHR 0x20,
        CHR 0xD0, CHR 0xBE, CHR 0xD0, CHR 0xBF, CHR 0xD1, CHR 0x8B, CHR 0xD1, CHR 0x82,
        CHR 0xD0, CHR 0xBD, CHR 0xD1, CHR 0x8B, CHR 0xD0, CHR 0xB9,
        CHR 0x20,
        CHR 0xD0, CHR 0xBF, CHR 0xD1, CHR 0x80, CHR 0xD0, CHR 0xBE, CHR 0xD0, CHR 0xB3,
        CHR 0xD1, CHR 0x80, CHR 0xD0, CHR 0xB0, CHR 0xD0, CHR 0xBC, CHR 0xD0, CHR 0xBC,
        CHR 0xD0, CHR 0xB8, CHR 0xD1, CHR 0x81, CHR 0xD1, CHR 0x82,
        CHR 0x2C, CHR 0x20,
        CHR 0xD0, CHR 0xBF, CHR 0xD0, CHR 0xBE, CHR 0xD0, CHR 0xBC, CHR 0xD0, CHR 0xBE,
        CHR 0xD0, CHR 0xB3, CHR 0xD0, CHR 0xB0, CHR 0xD1, CHR 0x8E, CHR 0xD1, CHR 0x89,
        CHR 0xD0, CHR 0xB8, CHR 0xD0, CHR 0xB9,
        CHR 0x20,
        CHR 0xD0, CHR 0xBF, CHR 0xD0, CHR 0xB8, CHR 0xD1, CHR 0x81, CHR 0xD0, CHR 0xB0,
        CHR 0xD1, CHR 0x82, CHR 0xD1, CHR 0x8C,
        CHR 0x20,
        CHR 0xD1, CHR 0x87, CHR 0xD0, CHR 0xB8, CHR 0xD1, CHR 0x81, CHR 0xD1, CHR 0x82,
        CHR 0xD1, CHR 0x8B, CHR 0xD0, CHR 0xB9,
        CHR 0x20,
        CHR 0xD0, CHR 0xB8,
        CHR 0x20,
        CHR 0xD1, CHR 0x8D, CHR 0xD1, CHR 0x84, CHR 0xD1, CHR 0x84, CHR 0xD0, CHR 0xB5,
        CHR 0xD0, CHR 0xBA, CHR 0xD1, CHR 0x82, CHR 0xD0, CHR 0xB8, CHR 0xD0, CHR 0xB2,
        CHR 0xD0, CHR 0xBD, CHR 0xD1, CHR 0x8B, CHR 0xD0, CHR 0xB9,
        CHR 0x20,
        CHR 0xD0, CHR 0xBA, CHR 0xD0, CHR 0xBE, CHR 0xD0, CHR 0xB4,
        CHR 0x2E])"
  by (simp add: import_config_fresh default_export_object get_property_def
      systemPrompt_literal_def)

text \<open>
  C2. The \<^verbatim>\<open>maxTokens\<close> property of the exported object is a number, that number is an
  integer, and it is greater than zero.
\<close>

theorem C2_maxTokens_positive:
  "\<exists>n. get_property (fst (default_export ollama w)) ''maxTokens'' = Some (JNumber n) \<and>
       is_integer n \<and> 0 < n"
  by (simp add: default_export_object get_property_def is_integer_def)

text \<open>
  C3. The \<^verbatim>\<open>systemPrompt\<close> property of the exported object is a string, and that string is
  not empty.
\<close>

theorem C3_systemPrompt_nonempty:
  "\<exists>s. get_property (fst (default_export ollama w)) ''systemPrompt'' = Some (JString s) \<and>
       s \<noteq> []"
  by (simp add: default_export_object get_property_def systemPrompt_literal_def)


section \<open>The model field and the factory\<close>

text \<open>
  C4. The \<^verbatim>\<open>model\<close> property is what the factory returns for the model name. Evaluating the
  module moves the outside state exactly as one call of the factory with that name does, and a
  factory that records its calls has recorded exactly this one call afterwards. The name is the
  literal \<^verbatim>\<open>qwen2.5-coder:7b\<close>; it is not empty and it is an identifier string in the sense of
  \<^const>\<open>provider_model_name\<close>.
\<close>

theorem C4_single_factory_call:
  "get_property (fst (default_export ollama w)) ''model'' =
     Some (JModel (fst (ollama model_id w))) \<and>
   snd (default_export ollama w) = snd (ollama model_id w) \<and>
   snd (default_export (recording ollama) (w, calls)) =
     (snd (ollama model_id w), calls @ [model_id]) \<and>
   model_id = ''qwen2.5-coder:7b'' \<and>
   model_id \<noteq> [] \<and>
   provider_model_name model_id"
proof -
  have name: "provider_model_name model_id"
    by (simp add: provider_model_name_def model_id_def identifier_part_def identifier_char_def)
  have call: "snd (default_export (recording ollama) (w, calls)) =
      (snd (ollama model_id w), calls @ [model_id])"
    by (simp add: default_export_world recording_state)
  have field: "get_property (fst (default_export ollama w)) ''model'' =
      Some (JModel (fst (ollama model_id w)))"
    by (simp add: default_export_object get_property_def)
  show ?thesis
    using name call field by (simp add: default_export_world) (simp add: model_id_def)
qed


section \<open>Conformance to the schema\<close>

text \<open>
  C5. The exported object conforms to the host's schema, whatever optional fields the schema
  declares: it supplies \<^verbatim>\<open>model\<close> as a model reference, \<^verbatim>\<open>systemPrompt\<close> as a string and
  \<^verbatim>\<open>maxTokens\<close> as an integer, and each of its properties is one the schema declares.
\<close>

theorem C5_conforms_to_schema:
  "conforms host_required optional (fst (default_export ollama w)) \<and>
   (\<exists>m s n. get_property (fst (default_export ollama w)) ''model'' = Some (JModel m) \<and>
            get_property (fst (default_export ollama w)) ''systemPrompt'' = Some (JString s) \<and>
            get_property (fst (default_export ollama w)) ''maxTokens'' = Some (JNumber n) \<and>
            is_integer n)"
  by (simp add: default_export_object conforms_def host_required_def supplies_def
      recognized_def get_property_def is_integer_def)


section \<open>Repeated constructions\<close>



text \<open>
  C7. Building the object with one model name or with another, under the same factory and
  outside state, gives the same \<^verbatim>\<open>systemPrompt\<close> and the same \<^verbatim>\<open>maxTokens\<close>.
\<close>

theorem C7_field_independence:
  "get_property (fst (config_with_model name1 ollama w)) ''systemPrompt'' =
     get_property (fst (config_with_model name2 ollama w)) ''systemPrompt'' \<and>
   get_property (fst (config_with_model name1 ollama w)) ''maxTokens'' =
     get_property (fst (config_with_model name2 ollama w)) ''maxTokens''"
  by (simp add: config_with_model_object get_property_def)



text \<open>
  C9. Evaluating the module has no effect of its own on the outside state: the state afterwards
  is the state the one factory call leaves. With the factory as the specification describes it,
  a descriptor of provider and model name that touches nothing, the evaluation and any number of
  imports leave the outside state unchanged, and the \<^verbatim>\<open>model\<close> property is that descriptor.
\<close>

theorem C9_no_effect_of_its_own:
  "snd (default_export ollama w) = snd (ollama model_id w) \<and>
   snd (default_export ollama_binding w) = w \<and>
   get_property (fst (default_export ollama_binding w)) ''model'' =
     Some (JModel (Binding ''ollama'' model_id)) \<and>
   snd (snd (import_many n ollama_binding (Unevaluated, w))) = w"
proof -
  have "snd (snd (import_many n ollama_binding (Unevaluated, w))) = w"
    by (cases n) (simp_all add: import_config_fresh import_many_evaluated ollama_binding_def)
  then show ?thesis
    by (simp add: default_export_object default_export_world get_property_def ollama_binding_def)
qed


section \<open>The set of fields\<close>

text \<open>
  C10. The exported object has exactly three own properties, \<^verbatim>\<open>model\<close>, \<^verbatim>\<open>systemPrompt\<close> and
  \<^verbatim>\<open>maxTokens\<close>, in this order, and no other: it has no own property under any other key.
\<close>

theorem C10_exactly_three_fields:
  "own_keys (fst (default_export ollama w)) = [''model'', ''systemPrompt'', ''maxTokens''] \<and>
   length (fst (default_export ollama w)) = 3 \<and>
   (get_property (fst (default_export ollama w)) k = None) =
     (k \<noteq> ''model'' \<and> k \<noteq> ''systemPrompt'' \<and> k \<noteq> ''maxTokens'')"
  by (auto simp add: default_export_object get_property_def own_keys_def)

end
